theory Spec2Isabelle
  imports Complex_Main "HOL-Library.Multiset"
begin

section \<open>TOPSIS ranking (topsis\_surya/core.py)\<close>

text \<open>
  A shallow embedding of \<^verbatim>\<open>src/topsis_surya/core.py\<close>. The program reads a table,
  validates it and the two parameter strings, computes TOPSIS scores and ranks with
  NumPy, and writes the table back with two more columns.

  Conventions of the embedding.
  \<^item> Python's \<^verbatim>\<open>float\<close> and NumPy's \<^verbatim>\<open>float64\<close> are modelled by \<^typ>\<open>real\<close>:
    rounding, overflow, \<^verbatim>\<open>inf\<close> and \<^verbatim>\<open>nan\<close> are outside the model.
  \<^item> \<^verbatim>\<open>error_and_exit(message)\<close> prints one line and raises \<^verbatim>\<open>SystemExit(1)\<close>. A
    function that may call it returns a sum: \<open>Inl line\<close> is the printed line of the
    aborted run, \<open>Inr v\<close> the returned value.
  \<^item> Functions of Python, NumPy and pandas that the program calls but does not define
    are parameters of the model: \<open>py_float\<close> (\<^verbatim>\<open>float(str)\<close>, \<open>None\<close> for \<^verbatim>\<open>ValueError\<close>),
    \<open>to_numeric\<close> (\<^verbatim>\<open>pd.to_numeric(..., errors="coerce")\<close> on one cell, \<open>None\<close> for
    \<^verbatim>\<open>NaN\<close>), and the two instances of \<^verbatim>\<open>np.argsort\<close> (on floats and on indices).
  \<^item> Strings are ASCII: one \<^typ>\<open>char\<close> per code point.
\<close>

subsection \<open>Strings\<close>

text \<open>\<^verbatim>\<open>str.isspace\<close> on an ASCII character: tab, LF, VT, FF, CR, the four separators
  \<^verbatim>\<open>\x1c..\x1f\<close> and the space.\<close>

definition is_space :: "char \<Rightarrow> bool" where
  "is_space c = (let n = (of_char c :: nat) in (9 \<le> n \<and> n \<le> 13) \<or> (28 \<le> n \<and> n \<le> 32))"

text \<open>\<^verbatim>\<open>s.strip()\<close>: leading and trailing whitespace removed.\<close>

definition strip :: "string \<Rightarrow> string" where
  "strip s = rev (dropWhile is_space (rev (dropWhile is_space s)))"

text \<open>\<^verbatim>\<open>s.split(",")\<close>: one token per comma plus one; the empty string gives one empty
  token.\<close>

fun split_comma :: "string \<Rightarrow> string list" where
  "split_comma [] = [[]]"
| "split_comma (c # cs) =
     (if c = CHR '','' then [] # split_comma cs
      else (case split_comma cs of
              [] \<Rightarrow> [[c]]
            | t # ts \<Rightarrow> (c # t) # ts))"

text \<open>\<^verbatim>\<open>[t.strip() for t in arg.split(",") if t.strip()]\<close>: the stripped tokens that are
  not empty.\<close>

definition tokens :: "string \<Rightarrow> string list" where
  "tokens arg = filter (\<lambda>t. t \<noteq> []) (map strip (split_comma arg))"

text \<open>\<^verbatim>\<open>str(n)\<close> of an integer, for the f-string of the count message.\<close>

fun str_nat :: "nat \<Rightarrow> string" where
  "str_nat n =
     (if n < 10 then [char_of (48 + n)]
      else str_nat (n div 10) @ [char_of (48 + n mod 10)])"

definition str_int :: "int \<Rightarrow> string" where
  "str_int k = (if k < 0 then CHR ''-'' # str_nat (nat (- k)) else str_nat (nat k))"

subsection \<open>error\_and\_exit\<close>

text \<open>\<^verbatim>\<open>print(f"Error: {message}"); sys.exit(1)\<close>. The value is the line printed; the
  exit code 1 is given to it by \<open>main\<close> below.\<close>

definition error_and_exit :: "string \<Rightarrow> string + 'a" where
  "error_and_exit message = Inl (''Error: '' @ message)"

subsection \<open>parse\_and\_validate\<close>

text \<open>The list comprehension of the weights, inside \<^verbatim>\<open>try ... except ValueError\<close>:
  \<open>None\<close> when \<^verbatim>\<open>float\<close> raises on some token.\<close>

fun parse_floats :: "(string \<Rightarrow> real option) \<Rightarrow> string list \<Rightarrow> real list option" where
  "parse_floats py_float [] = Some []"
| "parse_floats py_float (t # ts) =
     (case py_float t of
        None \<Rightarrow> None
      | Some x \<Rightarrow> (case parse_floats py_float ts of
                     None \<Rightarrow> None
                   | Some xs \<Rightarrow> Some (x # xs)))"

definition parse_and_validate ::
  "(string \<Rightarrow> real option) \<Rightarrow> string \<Rightarrow> string \<Rightarrow> int \<Rightarrow> string + (real list \<times> string list)" where
  "parse_and_validate py_float weights_arg impacts_arg ncols =
     (case parse_floats py_float (tokens weights_arg) of
        None \<Rightarrow> error_and_exit ''Weights must be numeric and separated by commas''
      | Some weights \<Rightarrow>
          (let impacts = tokens impacts_arg in
           if \<not> list_all (\<lambda>imp. imp = ''+'' \<or> imp = ''-'') impacts
           then error_and_exit (''Impacts must be '' @ [CHR 0x27] @ ''+'' @ [CHR 0x27] @ '' or ''
                  @ [CHR 0x27] @ ''-'' @ [CHR 0x27] @ '' and separated by commas'')
           else if int (length weights) \<noteq> ncols \<or> int (length impacts) \<noteq> ncols
           then error_and_exit (''Weights and impacts count must equal criteria count (''
                  @ str_int ncols @ '')'')
           else Inr (weights, impacts)))"

subsection \<open>The table and read\_and\_validate\_csv\<close>

text \<open>A \<^verbatim>\<open>DataFrame\<close> is its columns in order, each a name and its cells, all of one
  length (the number of rows); \<^verbatim>\<open>df.shape[1]\<close> is the number of columns. The cells of
  the table read from the file are of an arbitrary type \<open>'c\<close>.\<close>

type_synonym 'c dataframe = "(string \<times> 'c list) list"

text \<open>What \<^verbatim>\<open>pd.read_csv(path)\<close> did: it raised \<^verbatim>\<open>FileNotFoundError\<close>, it raised
  another exception (with its text), or it returned a table.\<close>

datatype 'c read_csv = FileNotFoundError | OtherException string | Frame "'c dataframe"

definition nrows :: "'c dataframe \<Rightarrow> nat" where
  "nrows df = (case df of [] \<Rightarrow> 0 | (name, column) # _ \<Rightarrow> length column)"

text \<open>\<^verbatim>\<open>df.iloc[:, 1:].apply(pd.to_numeric, errors="coerce").notna().all().all()\<close>\<close>

definition all_numeric :: "('c \<Rightarrow> real option) \<Rightarrow> 'c dataframe \<Rightarrow> bool" where
  "all_numeric to_numeric df =
     list_all (\<lambda>(name, column). list_all (\<lambda>c. to_numeric c \<noteq> None) column) (tl df)"

definition read_and_validate_csv ::
  "('c \<Rightarrow> real option) \<Rightarrow> 'c read_csv \<Rightarrow> string + 'c dataframe" where
  "read_and_validate_csv to_numeric r =
     (case r of
        FileNotFoundError \<Rightarrow> error_and_exit ''File not found''
      | OtherException e \<Rightarrow> error_and_exit (''Unable to read file: '' @ e)
      | Frame df \<Rightarrow>
          if length df < 3 then error_and_exit ''Input file must have at least 3 columns''
          else if \<not> all_numeric to_numeric df
          then error_and_exit ''Columns 2 onwards must contain only numeric values''
          else Inr df)"

subsection \<open>Arrays\<close>

text \<open>A two-dimensional \<^verbatim>\<open>np.ndarray\<close> of floats of shape \<open>(length rows, width)\<close>, by
  rows. The width is kept apart: an array of no rows still has its columns.\<close>

record ndarray =
  width :: nat
  rows :: "real list list"

text \<open>\<^verbatim>\<open>criteria.to_numpy(dtype=float)\<close> of the columns \<open>criteria\<close>: entry \<open>(i, j)\<close> is the
  number that cell \<open>i\<close> of column \<open>j\<close> is coerced to.\<close>

definition to_numpy :: "('c \<Rightarrow> real option) \<Rightarrow> 'c dataframe \<Rightarrow> ndarray" where
  "to_numpy to_numeric criteria =
     \<lparr>width = length criteria,
      rows = map (\<lambda>i. map (\<lambda>(name, column). the (to_numeric (column ! i))) criteria)
               [0..<nrows criteria]\<rparr>"

subsection \<open>topsis\_calculation\<close>

text \<open>\<^verbatim>\<open>np.linalg.norm(data, axis=0)\<close>: the Euclidean norm of every column.\<close>

definition norms :: "ndarray \<Rightarrow> real list" where
  "norms data = map (\<lambda>j. sqrt (\<Sum>r\<leftarrow>rows data. (r ! j)\<^sup>2)) [0..<width data]"

text \<open>\<^verbatim>\<open>(data / norms) * weights\<close>, both broadcast along the rows.\<close>

definition weighted_matrix :: "ndarray \<Rightarrow> real list \<Rightarrow> real list list" where
  "weighted_matrix data weights =
     map (\<lambda>r. map (\<lambda>j. r ! j / norms data ! j * weights ! j) [0..<width data]) (rows data)"

text \<open>\<^verbatim>\<open>weighted.max(axis=0)[j]\<close> and \<^verbatim>\<open>weighted.min(axis=0)[j]\<close>.\<close>

definition col_max :: "real list list \<Rightarrow> nat \<Rightarrow> real" where
  "col_max weighted j = Max ((\<lambda>r. r ! j) ` set weighted)"

definition col_min :: "real list list \<Rightarrow> nat \<Rightarrow> real" where
  "col_min weighted j = Min ((\<lambda>r. r ! j) ` set weighted)"

text \<open>\<^verbatim>\<open>np.where(impacts == "+", weighted.max(axis=0), weighted.min(axis=0))\<close> and the
  same with the two swapped.\<close>

definition ideal_best :: "nat \<Rightarrow> string list \<Rightarrow> real list list \<Rightarrow> real list" where
  "ideal_best c impacts weighted =
     map (\<lambda>j. if impacts ! j = ''+'' then col_max weighted j else col_min weighted j) [0..<c]"

definition ideal_worst :: "nat \<Rightarrow> string list \<Rightarrow> real list list \<Rightarrow> real list" where
  "ideal_worst c impacts weighted =
     map (\<lambda>j. if impacts ! j = ''+'' then col_min weighted j else col_max weighted j) [0..<c]"

text \<open>\<^verbatim>\<open>np.linalg.norm(weighted - ideal, axis=1)\<close>: the distance of every row to the
  point \<open>ideal\<close>.\<close>

definition separation :: "nat \<Rightarrow> real list list \<Rightarrow> real list \<Rightarrow> real list" where
  "separation c weighted ideal =
     map (\<lambda>r. sqrt (\<Sum>j\<leftarrow>[0..<c]. (r ! j - ideal ! j)\<^sup>2)) weighted"

text \<open>\<^verbatim>\<open>np.divide(s_worst, s_best + s_worst, out=zeros, where=(s_best + s_worst) != 0)\<close>\<close>

definition closeness :: "real list \<Rightarrow> real list \<Rightarrow> real list" where
  "closeness s_best s_worst =
     map (\<lambda>(b, w). if b + w \<noteq> 0 then w / (b + w) else 0) (zip s_best s_worst)"

text \<open>What NumPy documents of \<^verbatim>\<open>np.argsort(a)\<close> with its default \<^verbatim>\<open>kind\<close>: the result
  holds every index of \<open>a\<close> once, and reading \<open>a\<close> in that order gives it sorted. The
  default kind is documented as not stable, so nothing is said of the order of indices
  of equal elements.\<close>

definition is_argsort :: "('a :: linorder) list \<Rightarrow> nat list \<Rightarrow> bool" where
  "is_argsort a p = (mset p = mset [0..<length a] \<and> sorted (map (\<lambda>i. a ! i) p))"

definition argsort_spec :: "(('a :: linorder) list \<Rightarrow> nat list) \<Rightarrow> bool" where
  "argsort_spec argsort = (\<forall>a. is_argsort a (argsort a))"

text \<open>A stable argsort moreover keeps the indices of equal elements in increasing
  order.\<close>

definition ties_in_order :: "('a :: linorder) list \<Rightarrow> nat list \<Rightarrow> bool" where
  "ties_in_order a p =
     (\<forall>u < length p. \<forall>v < length p. u < v \<and> a ! (p ! u) = a ! (p ! v) \<longrightarrow> p ! u < p ! v)"

definition stable_spec :: "(('a :: linorder) list \<Rightarrow> nat list) \<Rightarrow> bool" where
  "stable_spec argsort = (\<forall>a. ties_in_order a (argsort a))"

text \<open>\<^verbatim>\<open>np.argsort(-scores).argsort() + 1\<close>; the first argsort is on floats, the second
  on the indices it returned.\<close>

definition rank_of ::
  "(real list \<Rightarrow> nat list) \<Rightarrow> (nat list \<Rightarrow> nat list) \<Rightarrow> real list \<Rightarrow> nat list" where
  "rank_of argsort_f argsort_i scores =
     map (\<lambda>k. k + 1) (argsort_i (argsort_f (map uminus scores)))"

definition topsis_calculation ::
  "(real list \<Rightarrow> nat list) \<Rightarrow> (nat list \<Rightarrow> nat list) \<Rightarrow>
   ndarray \<Rightarrow> real list \<Rightarrow> string list \<Rightarrow> string + (real list \<times> nat list)" where
  "topsis_calculation argsort_f argsort_i data weights impacts =
     (if list_ex (\<lambda>n. n = 0) (norms data)
      then error_and_exit ''Column with all zeros detected''
      else
        (let weighted = weighted_matrix data weights;
             best = ideal_best (width data) impacts weighted;
             worst = ideal_worst (width data) impacts weighted;
             s_best = separation (width data) weighted best;
             s_worst = separation (width data) weighted worst;
             scores = closeness s_best s_worst;
             ranks = rank_of argsort_f argsort_i scores
         in Inr (scores, ranks)))"

subsection \<open>run\_topsis and main\<close>

text \<open>A cell of the table that is written: a cell of the input, a score or a rank.\<close>

datatype 'c cell = Cell 'c | Score real | Rank nat

text \<open>\<^verbatim>\<open>df[name] = values\<close>: an existing column of that name is replaced where it
  stands, otherwise the column is added at the end.\<close>

fun setitem :: "'v dataframe \<Rightarrow> string \<Rightarrow> 'v list \<Rightarrow> 'v dataframe" where
  "setitem [] name values = [(name, values)]"
| "setitem ((n, column) # df) name values =
     (if n = name then (n, values) # df else (n, column) # setitem df name values)"

text \<open>The value is the table handed to \<^verbatim>\<open>df.to_csv(output_path, index=False)\<close>.\<close>

definition run_topsis ::
  "('c \<Rightarrow> real option) \<Rightarrow> (string \<Rightarrow> real option) \<Rightarrow>
   (real list \<Rightarrow> nat list) \<Rightarrow> (nat list \<Rightarrow> nat list) \<Rightarrow>
   'c read_csv \<Rightarrow> string \<Rightarrow> string \<Rightarrow> string + 'c cell dataframe" where
  "run_topsis to_numeric py_float argsort_f argsort_i input weights_arg impacts_arg =
     (case read_and_validate_csv to_numeric input of
        Inl line \<Rightarrow> Inl line
      | Inr df \<Rightarrow>
          (case parse_and_validate py_float weights_arg impacts_arg (int (length df) - 1) of
             Inl line \<Rightarrow> Inl line
           | Inr (weights, impacts) \<Rightarrow>
               (case topsis_calculation argsort_f argsort_i
                       (to_numpy to_numeric (tl df)) weights impacts of
                  Inl line \<Rightarrow> Inl line
                | Inr (scores, ranks) \<Rightarrow>
                    Inr (setitem
                           (setitem (map (\<lambda>(name, column). (name, map Cell column)) df)
                              ''Topsis Score'' (map Score scores))
                           ''Rank'' (map Rank ranks)))))"

text \<open>One invocation: what was printed, the exit code, and the file written (its path
  and table) if any. \<open>files\<close> is \<^verbatim>\<open>pd.read_csv\<close> on the file system of the run.\<close>

record 'c outcome =
  printed :: "string list"
  exit_code :: nat
  written :: "(string \<times> 'c cell dataframe) option"

definition main ::
  "('c \<Rightarrow> real option) \<Rightarrow> (string \<Rightarrow> real option) \<Rightarrow>
   (real list \<Rightarrow> nat list) \<Rightarrow> (nat list \<Rightarrow> nat list) \<Rightarrow>
   (string \<Rightarrow> 'c read_csv) \<Rightarrow> string list \<Rightarrow> 'c outcome" where
  "main to_numeric py_float argsort_f argsort_i files args =
     (case (if length args \<noteq> 4
            then error_and_exit
                   ''Usage: <InputDataFile> <Weights> <Impacts> <OutputResultFile>''
            else run_topsis to_numeric py_float argsort_f argsort_i
                   (files (args ! 0)) (args ! 1) (args ! 2)) of
        Inl line \<Rightarrow> \<lparr>printed = [line], exit_code = 1, written = None\<rparr>
      | Inr df \<Rightarrow>
          \<lparr>printed = [''Result written to '' @ args ! 3], exit_code = 0,
           written = Some (args ! 3, df)\<rparr>)"

subsection \<open>Instances of the library functions, to run examples\<close>

text \<open>A stable argsort: insertion sort of the indices by their elements.\<close>

definition argsort_stable :: "('a :: linorder) list \<Rightarrow> nat list" where
  "argsort_stable a = sort_key (\<lambda>i. a ! i) [0..<length a]"

text \<open>\<^verbatim>\<open>float\<close> on the literals \<^verbatim>\<open>[+-]digits[.digits]\<close>; any other string is refused here
  (Python accepts more: exponents, \<^verbatim>\<open>inf\<close>, \<^verbatim>\<open>nan\<close>, underscores).\<close>

definition digits_val :: "string \<Rightarrow> nat" where
  "digits_val ds = foldl (\<lambda>n c. 10 * n + (of_char c - 48)) 0 ds"

definition is_digit :: "char \<Rightarrow> bool" where
  "is_digit c = (let n = (of_char c :: nat) in 48 \<le> n \<and> n \<le> 57)"

definition unsigned_decimal :: "string \<Rightarrow> real option" where
  "unsigned_decimal s =
     (let ip = takeWhile is_digit s; rest = dropWhile is_digit s in
      if ip = [] then None
      else if rest = [] then Some (real (digits_val ip))
      else if hd rest = CHR ''.'' \<and> tl rest \<noteq> [] \<and> list_all is_digit (tl rest)
      then Some (real (digits_val ip) + real (digits_val (tl rest)) / 10 ^ length (tl rest))
      else None)"

definition decimal :: "string \<Rightarrow> real option" where
  "decimal s =
     (case s of
        [] \<Rightarrow> None
      | c # cs \<Rightarrow>
          if c = CHR ''-'' then map_option uminus (unsigned_decimal cs)
          else if c = CHR ''+'' then unsigned_decimal cs
          else unsigned_decimal s)"

text \<open>Three small tables with text cells, read with \<open>decimal\<close>, and a file system
  holding them: one with criteria \<^verbatim>\<open>Price\<close> and \<^verbatim>\<open>Speed\<close>, one whose \<^verbatim>\<open>Price\<close> column is all
  zeros, and one whose first criterion is itself named \<^verbatim>\<open>Rank\<close>.\<close>

definition example_table :: "string dataframe" where
  "example_table =
     [(''Model'', [''M1'', ''M2'']), (''Price'', [''3'', ''4'']), (''Speed'', [''4'', ''3''])]"

definition zero_table :: "string dataframe" where
  "zero_table =
     [(''Model'', [''M1'', ''M2'']), (''Price'', [''0'', ''0'']), (''Speed'', [''4'', ''3''])]"

definition rank_table :: "string dataframe" where
  "rank_table =
     [(''Model'', [''M1'', ''M2'']), (''Rank'', [''3'', ''4'']), (''Speed'', [''4'', ''3''])]"

definition example_files :: "string \<Rightarrow> string read_csv" where
  "example_files path =
     (if path = ''in.csv'' then Frame example_table
      else if path = ''zero.csv'' then Frame zero_table
      else if path = ''rank.csv'' then Frame rank_table
      else if path = ''bad.csv'' then OtherException ''No columns to parse from file''
      else FileNotFoundError)"

section \<open>Properties\<close>

subsection \<open>Tokens\<close>

lemmas string_eval = tokens_def strip_def is_space_def
lemmas decimal_eval = decimal_def unsigned_decimal_def is_digit_def digits_val_def

lemma split_comma_nonempty: "split_comma s \<noteq> []"
  by (induction s) (auto split: list.splits)

lemma split_comma_append:
  "split_comma (a @ CHR '','' # b) = split_comma a @ split_comma b"
proof (induction a)
  case Nil
  show ?case by simp
next
  case (Cons c a)
  obtain t ts where "split_comma a = t # ts"
    using split_comma_nonempty [of a] by (cases "split_comma a") auto
  with Cons show ?case by simp
qed

lemma tokens_Nil: "tokens [] = []"
  by (simp add: tokens_def strip_def)

lemma tokens_append: "tokens (a @ CHR '','' # b) = tokens a @ tokens b"
  by (simp add: tokens_def split_comma_append)

lemma parse_floats_eq:
  "parse_floats pf ts =
     (if \<exists>t \<in> set ts. pf t = None then None else Some (map (\<lambda>t. the (pf t)) ts))"
  by (induction ts) (auto split: option.splits)

lemma parse_and_validate_cong:
  "tokens i1 = tokens i2 \<Longrightarrow>
   parse_and_validate pf w i1 n = parse_and_validate pf w i2 n"
  by (simp add: parse_and_validate_def split: option.splits)

subsection \<open>Parameter validation\<close>

text \<open>
  Claim C5. \<open>parse_and_validate\<close> exits with the weights message if \<^verbatim>\<open>float\<close> refuses
  some (stripped, non-empty) weight token; otherwise with the impacts message if some
  (stripped, non-empty) impact token is neither \<^verbatim>\<open>+\<close> nor \<^verbatim>\<open>-\<close>; otherwise with the
  count message if the number of weights or of impacts is not \<open>ncols\<close>; otherwise it
  returns the parsed weights and the impact tokens. So it fails exactly when one of the
  three conditions holds.
\<close>

theorem parse_and_validate_cases:
  "parse_and_validate py_float weights_arg impacts_arg ncols =
     (if \<exists>t \<in> set (tokens weights_arg). py_float t = None
      then error_and_exit ''Weights must be numeric and separated by commas''
      else if \<exists>imp \<in> set (tokens impacts_arg). imp \<noteq> ''+'' \<and> imp \<noteq> ''-''
      then error_and_exit (''Impacts must be '' @ [CHR 0x27] @ ''+'' @ [CHR 0x27] @ '' or ''
                  @ [CHR 0x27] @ ''-'' @ [CHR 0x27] @ '' and separated by commas'')
      else if int (length (tokens weights_arg)) \<noteq> ncols
              \<or> int (length (tokens impacts_arg)) \<noteq> ncols
      then error_and_exit (''Weights and impacts count must equal criteria count (''
                  @ str_int ncols @ '')'')
      else Inr (map (\<lambda>t. the (py_float t)) (tokens weights_arg), tokens impacts_arg))
   \<and> (isl (parse_and_validate py_float weights_arg impacts_arg ncols) \<longleftrightarrow>
        (\<exists>t \<in> set (tokens weights_arg). py_float t = None)
        \<or> (\<exists>imp \<in> set (tokens impacts_arg). imp \<noteq> ''+'' \<and> imp \<noteq> ''-'')
        \<or> int (length (tokens weights_arg)) \<noteq> ncols
        \<or> int (length (tokens impacts_arg)) \<noteq> ncols)"
  unfolding parse_and_validate_def parse_floats_eq Let_def list_all_iff error_and_exit_def
  by (auto simp del: One_nat_def)

theorem parse_and_validate_cases_witness:
  "parse_and_validate decimal ''0.25, 0.75'' ''+,-'' 2 = Inr ([1/4, 3/4], [''+'', ''-''])
   \<and> isl (parse_and_validate decimal ''1,x'' ''+,-'' 2)
   \<and> isl (parse_and_validate decimal ''1,2'' ''+,*'' 2)
   \<and> isl (parse_and_validate decimal ''1,2,3'' ''+,-'' 2)"
  using parse_and_validate_cases [of decimal "''0.25, 0.75''" "''+,-''" 2]
    parse_and_validate_cases [of decimal "''1,x''" "''+,-''" 2]
    parse_and_validate_cases [of decimal "''1,2''" "''+,*''" 2]
    parse_and_validate_cases [of decimal "''1,2,3''" "''+,-''" 2]
  by (simp add: string_eval decimal_eval error_and_exit_def)

text \<open>
  Claim C9. The impact tokens are stripped and the empty ones dropped before the symbol
  check and the count check: a leading comma, a trailing comma and a doubled comma in
  the impacts string change nothing of the result. So \<^verbatim>\<open>+,,-\<close> is read as the two
  impacts \<^verbatim>\<open>+\<close> and \<^verbatim>\<open>-\<close> and validates against two criteria.
\<close>

theorem impacts_empty_tokens_dropped:
  "parse_and_validate py_float weights_arg (CHR '','' # s) ncols
     = parse_and_validate py_float weights_arg s ncols
   \<and> parse_and_validate py_float weights_arg (s @ '','') ncols
     = parse_and_validate py_float weights_arg s ncols
   \<and> parse_and_validate py_float weights_arg (a @ '',,'' @ b) ncols
     = parse_and_validate py_float weights_arg (a @ '','' @ b) ncols
   \<and> tokens ''+,,-'' = [''+'', ''-'']
   \<and> parse_and_validate decimal ''1,1'' ''+,,-'' 2 = Inr ([1, 1], [''+'', ''-''])"
proof -
  have 1: "tokens (CHR '','' # t) = tokens t" for t
    using tokens_append [of "[]" t] by (simp add: tokens_Nil)
  have 2: "tokens (s @ '','') = tokens s"
    using tokens_append [of s "[]"] by (simp add: tokens_Nil)
  have 3: "tokens (a @ '',,'' @ b) = tokens (a @ '','' @ b)"
    using tokens_append [of a "CHR '','' # b"] tokens_append [of a b] 1 [of b] by simp
  have 4: "tokens ''+,,-'' = [''+'', ''-'']"
    by (simp add: string_eval)
  have 5: "parse_and_validate decimal ''1,1'' ''+,,-'' 2 = Inr ([1, 1], [''+'', ''-''])"
    by (simp add: parse_and_validate_def string_eval decimal_eval)
  show ?thesis
    using 4 5 parse_and_validate_cong [OF 1 [of s]] parse_and_validate_cong [OF 2]
      parse_and_validate_cong [OF 3]
    by blast
qed

theorem impacts_empty_tokens_dropped_witness:
  "parse_and_validate decimal ''1,1'' '',+,-'' 2 = Inr ([1, 1], [''+'', ''-''])
   \<and> parse_and_validate decimal ''1,1'' ''+,-,'' 2 = Inr ([1, 1], [''+'', ''-''])
   \<and> parse_and_validate decimal ''1,1'' ''+,,-'' 2 = Inr ([1, 1], [''+'', ''-''])"
proof -
  have "parse_and_validate decimal ''1,1'' ''+,-'' 2 = Inr ([1, 1], [''+'', ''-''])"
    by (simp add: parse_and_validate_def string_eval decimal_eval)
  then show ?thesis
    using impacts_empty_tokens_dropped [of decimal "''1,1''" "''+,-''" 2 "''+''" "''-''"]
    by simp
qed

subsection \<open>Argsort\<close>

lemma is_argsort_length: "is_argsort a p \<Longrightarrow> length p = length a"
  by (metis is_argsort_def length_upt minus_nat.diff_0 size_mset)

lemma is_argsort_set: "is_argsort a p \<Longrightarrow> set p = {..<length a}"
  by (metis is_argsort_def atLeast_upt mset_eq_setD)

lemma is_argsort_distinct: "is_argsort a p \<Longrightarrow> distinct p"
  by (metis is_argsort_def distinct_upt mset_eq_imp_distinct_iff)

lemma sorted_perm_upt:
  assumes "mset xs = mset [0..<n]" "sorted xs"
  shows "xs = [0..<n]"
  using assms by (metis properties_for_sort sorted_upt sorted_sort_id)

text \<open>The second argsort inverts the first.\<close>

lemma argsort_argsort_inverse:
  assumes p: "is_argsort a p" and q: "is_argsort p q"
  shows "map (\<lambda>i. p ! i) q = [0..<length a]"
proof -
  have lp: "length p = length a" using p by (rule is_argsort_length)
  have "mset q = mset [0..<length p]" using q unfolding is_argsort_def by blast
  then have "mset (map (\<lambda>i. p ! i) q) = mset (map (\<lambda>i. p ! i) [0..<length p])"
    by (metis mset_map)
  also have "\<dots> = mset p" by (simp add: map_nth)
  also have "\<dots> = mset [0..<length a]" using p by (simp add: is_argsort_def)
  finally have "mset (map (\<lambda>i. p ! i) q) = mset [0..<length a]" .
  moreover have "sorted (map (\<lambda>i. p ! i) q)" using q by (simp add: is_argsort_def)
  ultimately show ?thesis by (rule sorted_perm_upt)
qed

lemma argsort_argsort_nth:
  assumes p: "is_argsort a p" and q: "is_argsort p q" and i: "i < length a"
  shows "q ! i < length a" "p ! (q ! i) = i"
proof -
  have lq: "length q = length a"
    using is_argsort_length [OF q] is_argsort_length [OF p] by simp
  have "q ! i \<in> set q" using i lq by simp
  then show "q ! i < length a"
    using is_argsort_set [OF q] is_argsort_length [OF p] by auto
  have "map (\<lambda>i. p ! i) q ! i = [0..<length a] ! i"
    using argsort_argsort_inverse [OF p q] by simp
  then show "p ! (q ! i) = i" using i lq by simp
qed

lemma rank_order:
  assumes p: "is_argsort a p" and q: "is_argsort p q"
    and i: "i < length a" and k: "k < length a" and lt: "a ! i < a ! k"
  shows "q ! i < q ! k"
proof (rule ccontr)
  assume "\<not> q ! i < q ! k"
  then have le: "q ! k \<le> q ! i" by simp
  have lp: "length p = length a" using p by (rule is_argsort_length)
  have "sorted (map (\<lambda>i. a ! i) p)" using p by (simp add: is_argsort_def)
  then have "map (\<lambda>i. a ! i) p ! (q ! k) \<le> map (\<lambda>i. a ! i) p ! (q ! i)"
    using le argsort_argsort_nth(1) [OF p q i] lp by (simp add: sorted_iff_nth_mono del: nth_map)
  then have "a ! (p ! (q ! k)) \<le> a ! (p ! (q ! i))"
    using argsort_argsort_nth(1) [OF p q i] argsort_argsort_nth(1) [OF p q k] lp by simp
  then show False
    using lt argsort_argsort_nth(2) [OF p q i] argsort_argsort_nth(2) [OF p q k] by simp
qed

lemma rank_ties:
  assumes p: "is_argsort a p" and q: "is_argsort p q" and st: "ties_in_order a p"
    and i: "i < length a" and k: "k < length a" and eq: "a ! i = a ! k" and ik: "i < k"
  shows "q ! i < q ! k"
proof (rule ccontr)
  assume n: "\<not> q ! i < q ! k"
  have lp: "length p = length a" using p by (rule is_argsort_length)
  have pi: "p ! (q ! i) = i" and pk: "p ! (q ! k) = k"
    using argsort_argsort_nth(2) [OF p q] i k by auto
  have "q ! i \<noteq> q ! k" using pi pk ik by auto
  with n have "q ! k < q ! i" by simp
  moreover have "q ! i < length p" using argsort_argsort_nth(1) [OF p q i] lp by simp
  moreover have "a ! (p ! (q ! k)) = a ! (p ! (q ! i))" using pi pk eq by simp
  ultimately have "p ! (q ! k) < p ! (q ! i)"
    using st unfolding ties_in_order_def by (meson less_trans)
  then show False using pi pk ik by simp
qed


lemma argsort_stable_spec: "argsort_spec argsort_stable"
  by (simp add: argsort_spec_def is_argsort_def argsort_stable_def sorted_sort_key [where f = "\<lambda>i. a ! i" for a])

lemma insort_key_lex:
  fixes f :: "nat \<Rightarrow> 'k :: linorder"
  assumes "sorted_wrt (\<lambda>x y. f x < f y \<or> (f x = f y \<and> x < y)) ys" "\<forall>y \<in> set ys. x < y"
  shows "sorted_wrt (\<lambda>x y. f x < f y \<or> (f x = f y \<and> x < y)) (insort_key f x ys)"
  using assms by (induction ys) (auto simp: set_insort_key)

lemma sort_key_lex:
  fixes f :: "nat \<Rightarrow> 'k :: linorder"
  assumes "sorted_wrt (<) xs"
  shows "sorted_wrt (\<lambda>x y. f x < f y \<or> (f x = f y \<and> x < y)) (sort_key f xs)"
  using assms by (induction xs) (auto intro: insort_key_lex)

lemma argsort_stable_ties: "stable_spec (argsort_stable :: ('a::linorder) list \<Rightarrow> nat list)"
proof -
  have "ties_in_order a (argsort_stable a)" for a :: "'a list"
  proof -
    have "sorted_wrt (\<lambda>x y. a ! x < a ! y \<or> (a ! x = a ! y \<and> x < y)) (argsort_stable a)"
      unfolding argsort_stable_def by (rule sort_key_lex) (simp add: sorted_wrt_upt)
    then show ?thesis
      unfolding ties_in_order_def by (auto dest: sorted_wrt_nth_less)
  qed
  then show ?thesis by (simp add: stable_spec_def)
qed

lemmas topsis_eval = topsis_calculation_def norms_def error_and_exit_def weighted_matrix_def
  ideal_best_def ideal_worst_def col_max_def col_min_def separation_def closeness_def
  rank_of_def argsort_stable_def upt_rec

lemma sqrt25: "sqrt 25 = 5"
  using real_sqrt_abs [of 5] by simp

lemma example_run:
  "topsis_calculation argsort_stable argsort_stable \<lparr>width = 2, rows = [[3, 4], [4, 3]]\<rparr>
     [1, 1] [''+'', ''-''] = Inr ([0, 1], [2, 1])"
  by (simp add: topsis_eval sqrt25)

lemma single_row_run:
  "topsis_calculation argsort_stable argsort_stable \<lparr>width = 2, rows = [[3, 4]]\<rparr>
     [1, 1] [''+'', ''-''] = Inr ([0], [1])"
  by (simp add: topsis_eval)


lemma topsis_calculation_Inr:
  assumes "topsis_calculation af ai data w imp = Inr (scores, ranks)"
  shows "\<not> list_ex (\<lambda>n. n = 0) (norms data)"
    and "scores = closeness
           (separation (width data) (weighted_matrix data w)
              (ideal_best (width data) imp (weighted_matrix data w)))
           (separation (width data) (weighted_matrix data w)
              (ideal_worst (width data) imp (weighted_matrix data w)))"
    and "ranks = rank_of af ai scores"
  using assms
  by (auto simp: topsis_calculation_def error_and_exit_def Let_def split: if_splits)

lemma topsis_scores_length:
  assumes "topsis_calculation af ai data w imp = Inr (scores, ranks)"
  shows "length scores = length (rows data)"
  unfolding topsis_calculation_Inr(2) [OF assms]
  by (simp add: closeness_def separation_def weighted_matrix_def)

subsection \<open>Ranks\<close>

text \<open>
  Let the two argsorts meet the contract \<open>argsort_spec\<close> and let \<open>topsis_calculation\<close>
  return \<open>(scores, ranks)\<close> for a matrix of \<open>R\<close> rows. Then the ranks are a permutation
  of \<open>1..R\<close>, and a row of strictly higher score has a strictly smaller rank. Rows of
  equal score get distinct ranks; these follow the original row order if the float
  argsort is stable (\<open>stable_spec\<close>). The call \<^verbatim>\<open>np.argsort(-scores)\<close> passes no
  \<^verbatim>\<open>kind\<close>, and whether the default sort of NumPy keeps equal elements in order is not
  settled by the source; the order of tied rows is established here under that
  hypothesis only.
\<close>

theorem ranks_permutation_descending:
  assumes f: "argsort_spec argsort_f" and i: "argsort_spec argsort_i"
    and run: "topsis_calculation argsort_f argsort_i data weights impacts = Inr (scores, ranks)"
  shows "mset ranks = mset [1..<length (rows data) + 1]
    \<and> (\<forall>i < length (rows data). \<forall>k < length (rows data).
          scores ! k < scores ! i \<longrightarrow> ranks ! i < ranks ! k)
    \<and> (stable_spec argsort_f \<longrightarrow>
        (\<forall>i < length (rows data). \<forall>k < length (rows data).
          scores ! i = scores ! k \<and> i < k \<longrightarrow> ranks ! i < ranks ! k))"
proof -
  define a where "a = map uminus scores"
  define p where "p = argsort_f a"
  define q where "q = argsort_i p"
  have n: "length a = length (rows data)"
    using topsis_scores_length [OF run] by (simp add: a_def)
  have p: "is_argsort a p" using f by (simp add: argsort_spec_def p_def)
  have q: "is_argsort p q" using i by (simp add: argsort_spec_def q_def)
  have ranks: "ranks = map (\<lambda>k. k + 1) q"
    using topsis_calculation_Inr(3) [OF run] by (simp add: rank_of_def q_def p_def a_def)
  have lq: "length q = length (rows data)"
    using is_argsort_length [OF q] is_argsort_length [OF p] n by simp
  have "mset q = mset [0..<length (rows data)]"
    using q is_argsort_length [OF p] n by (simp add: is_argsort_def)
  then have "mset (map Suc q) = mset (map Suc [0..<length (rows data)])"
    by (metis mset_map)
  then have 1: "mset ranks = mset [1..<length (rows data) + 1]"
    by (simp add: ranks map_Suc_upt)
  have 2: "ranks ! i < ranks ! k"
    if "i < length (rows data)" "k < length (rows data)" "scores ! k < scores ! i" for i k
  proof -
    have "a ! i < a ! k" using that n by (simp add: a_def)
    then have "q ! i < q ! k" using rank_order [OF p q] that n by simp
    then show ?thesis using that lq by (simp add: ranks)
  qed
  have 3: "ranks ! i < ranks ! k"
    if "stable_spec argsort_f" "i < length (rows data)" "k < length (rows data)"
      "scores ! i = scores ! k" "i < k" for i k
  proof -
    have "ties_in_order a p" using that(1) by (simp add: stable_spec_def p_def)
    moreover have "a ! i = a ! k" using that n by (simp add: a_def)
    ultimately have "q ! i < q ! k" using rank_ties [OF p q] that n by simp
    then show ?thesis using that lq by (simp add: ranks)
  qed
  show ?thesis using 1 2 3 by blast
qed

theorem ranks_permutation_descending_witness:
  "argsort_spec (argsort_stable :: real list \<Rightarrow> nat list)
   \<and> argsort_spec (argsort_stable :: nat list \<Rightarrow> nat list)
   \<and> stable_spec (argsort_stable :: real list \<Rightarrow> nat list)
   \<and> topsis_calculation argsort_stable argsort_stable \<lparr>width = 2, rows = [[3, 4], [4, 3]]\<rparr>
        [1, 1] [''+'', ''-''] = Inr ([0, 1], [2, 1])
   \<and> mset [2, 1 :: nat] = mset [1..<length [[3, 4], [4, 3 :: real]] + 1]
   \<and> [0, 1 :: real] ! 0 < [0, 1] ! 1 \<and> [2, 1 :: nat] ! 1 < [2, 1] ! 0"
proof -
  have f: "argsort_spec (argsort_stable :: real list \<Rightarrow> nat list)"
    by (rule argsort_stable_spec)
  have i: "argsort_spec (argsort_stable :: nat list \<Rightarrow> nat list)"
    by (rule argsort_stable_spec)
  have s: "stable_spec (argsort_stable :: real list \<Rightarrow> nat list)"
    by (rule argsort_stable_ties)
  show ?thesis
    using ranks_permutation_descending [OF f i example_run] f i s example_run by simp
qed

subsection \<open>Norms, weighting, scores\<close>

lemma norms_nth:
  "j < width data \<Longrightarrow> norms data ! j = sqrt (\<Sum>r\<leftarrow>rows data. (r ! j)\<^sup>2)"
  by (simp add: norms_def)

lemma norms_zero_iff:
  assumes "j < width data"
  shows "norms data ! j = 0 \<longleftrightarrow> (\<forall>r \<in> set (rows data). r ! j = 0)"
proof -
  have "(\<Sum>r\<leftarrow>rows data. (r ! j)\<^sup>2) = 0 \<longleftrightarrow> (\<forall>x \<in> set (map (\<lambda>r. (r ! j)\<^sup>2) (rows data)). x = 0)"
    by (rule sum_list_nonneg_eq_0_iff) auto
  then show ?thesis using assms by (simp add: norms_nth)
qed

lemma list_ex_norms:
  "list_ex (\<lambda>n. n = 0) (norms data) \<longleftrightarrow> (\<exists>j < width data. norms data ! j = 0)"
proof -
  have "length (norms data) = width data" by (simp add: norms_def)
  then show ?thesis by (auto simp: list_ex_iff in_set_conv_nth)
qed

lemma topsis_calculation_isl:
  "isl (topsis_calculation af ai data w imp) \<longleftrightarrow> (\<exists>j < width data. norms data ! j = 0)"
  by (simp add: topsis_calculation_def error_and_exit_def Let_def list_ex_norms)

lemma topsis_calculation_Inl:
  "isl (topsis_calculation af ai data w imp) \<Longrightarrow>
   topsis_calculation af ai data w imp = error_and_exit ''Column with all zeros detected''"
  by (simp add: topsis_calculation_def Let_def split: if_splits)

lemma weighted_matrix_nth:
  "i < length (rows data) \<Longrightarrow> j < width data \<Longrightarrow>
   weighted_matrix data w ! i ! j = rows data ! i ! j / norms data ! j * w ! j"
  by (simp add: weighted_matrix_def)

lemma length_weighted_matrix: "length (weighted_matrix data w) = length (rows data)"
  by (simp add: weighted_matrix_def)

lemma col_image: "(\<lambda>r. r ! j) ` set W = (\<lambda>k. W ! k ! j) ` {..<length W}"
  by (force simp: in_set_conv_nth image_iff)

lemma separation_nth:
  "i < length W \<Longrightarrow>
   separation c W ideal ! i = sqrt (\<Sum>j\<leftarrow>[0..<c]. (W ! i ! j - ideal ! j)\<^sup>2)"
  by (simp add: separation_def)

lemma closeness_nth:
  "i < length b \<Longrightarrow> i < length w \<Longrightarrow>
   closeness b w ! i = (if b ! i + w ! i \<noteq> 0 then w ! i / (b ! i + w ! i) else 0)"
  by (simp add: closeness_def)

lemma closeness_range:
  assumes "0 \<le> b" "0 \<le> (w :: real)"
  shows "0 \<le> (if b + w \<noteq> 0 then w / (b + w) else 0)"
    and "(if b + w \<noteq> 0 then w / (b + w) else 0) \<le> 1"
  using assms by (auto simp: divide_le_eq_1)

text \<open>
  Claim C2. When \<open>topsis_calculation\<close> returns, it returns one score per row, and for every
  row \<open>i\<close>, with \<open>s_best\<close> and \<open>s_worst\<close> the Euclidean distances of the weighted row to the
  ideal best and the ideal worst point: the score is \<open>s_worst / (s_best + s_worst)\<close> when
  that sum is not zero and 0 when it is zero. The score lies in \<open>[0, 1]\<close> (in both cases;
  in particular whenever the denominator is not zero).
\<close>

theorem score_closeness:
  assumes run: "topsis_calculation argsort_f argsort_i data weights impacts = Inr (scores, ranks)"
    and i: "i < length (rows data)"
  shows "length scores = length (rows data) \<and>
    (let W = weighted_matrix data weights;
         s_best = sqrt (\<Sum>j\<leftarrow>[0..<width data].
                     (W ! i ! j - ideal_best (width data) impacts W ! j)\<^sup>2);
         s_worst = sqrt (\<Sum>j\<leftarrow>[0..<width data].
                     (W ! i ! j - ideal_worst (width data) impacts W ! j)\<^sup>2)
     in (s_best + s_worst \<noteq> 0 \<longrightarrow> scores ! i = s_worst / (s_best + s_worst))
        \<and> (s_best + s_worst = 0 \<longrightarrow> scores ! i = 0)
        \<and> 0 \<le> scores ! i \<and> scores ! i \<le> 1)"
proof -
  define W where "W = weighted_matrix data weights"
  define b where "b = separation (width data) W (ideal_best (width data) impacts W)"
  define w where "w = separation (width data) W (ideal_worst (width data) impacts W)"
  have lW: "length W = length (rows data)" by (simp add: W_def length_weighted_matrix)
  have s: "scores = closeness b w"
    using topsis_calculation_Inr(2) [OF run] by (simp add: b_def w_def W_def)
  have lb: "i < length b" and lw: "i < length w"
    using i lW by (simp_all add: b_def w_def separation_def)
  have bi: "b ! i = sqrt (\<Sum>j\<leftarrow>[0..<width data].
                     (W ! i ! j - ideal_best (width data) impacts W ! j)\<^sup>2)"
    using i lW by (simp add: b_def separation_nth)
  have wi: "w ! i = sqrt (\<Sum>j\<leftarrow>[0..<width data].
                     (W ! i ! j - ideal_worst (width data) impacts W ! j)\<^sup>2)"
    using i lW by (simp add: w_def separation_nth)
  have b0: "0 \<le> b ! i" unfolding bi by (intro real_sqrt_ge_zero sum_list_nonneg) auto
  have w0: "0 \<le> w ! i" unfolding wi by (intro real_sqrt_ge_zero sum_list_nonneg) auto
  have sc: "scores ! i = (if b ! i + w ! i \<noteq> 0 then w ! i / (b ! i + w ! i) else 0)"
    using lb lw by (simp add: s closeness_nth)
  have "0 \<le> scores ! i" "scores ! i \<le> 1"
    unfolding sc using closeness_range [OF b0 w0] by auto
  moreover have "length scores = length (rows data)"
    using topsis_scores_length [OF run] .
  ultimately show ?thesis
    using sc unfolding Let_def W_def [symmetric] bi [symmetric] wi [symmetric] by simp
qed

theorem score_closeness_witness:
  "topsis_calculation argsort_stable argsort_stable \<lparr>width = 2, rows = [[3, 4], [4, 3]]\<rparr>
        [1, 1] [''+'', ''-''] = Inr ([0, 1], [2, 1])
   \<and> (1 :: nat) < length (rows \<lparr>width = 2, rows = [[3, 4], [4, 3]]\<rparr>)
   \<and> length [0, 1 :: real] = length (rows \<lparr>width = 2, rows = [[3, 4], [4, 3]]\<rparr>)
   \<and> 0 \<le> [0, 1 :: real] ! 1 \<and> [0, 1 :: real] ! 1 \<le> 1
   \<and> topsis_calculation argsort_stable argsort_stable \<lparr>width = 2, rows = [[3, 4]]\<rparr>
        [1, 1] [''+'', ''-''] = Inr ([0], [1])
   \<and> separation 2 [[1, 1]] [1, 1] = [0]"
  using score_closeness [OF example_run, of 1] score_closeness [OF single_row_run, of 0]
    example_run single_row_run
  by (simp add: separation_def upt_rec)



subsection \<open>The example tables\<close>

lemmas table_eval = example_table_def zero_table_def rank_table_def example_files_def
  read_and_validate_csv_def all_numeric_def to_numpy_def nrows_def

lemma to_numpy_example:
  "to_numpy decimal (tl example_table) = \<lparr>width = 2, rows = [[3, 4], [4, 3]]\<rparr>"
  by (simp add: table_eval decimal_eval upt_rec)

lemma to_numpy_rank:
  "to_numpy decimal (tl rank_table) = \<lparr>width = 2, rows = [[3, 4], [4, 3]]\<rparr>"
  by (simp add: table_eval decimal_eval upt_rec)

lemma to_numpy_zero:
  "to_numpy decimal (tl zero_table) = \<lparr>width = 2, rows = [[0, 4], [0, 3]]\<rparr>"
  by (simp add: table_eval decimal_eval upt_rec)

lemma read_example: "read_and_validate_csv decimal (Frame example_table) = Inr example_table"
  by (simp add: table_eval decimal_eval)

lemma parse_example:
  "parse_and_validate decimal ''1,1'' ''+,-'' 2 = Inr ([1, 1], [''+'', ''-''])"
  by (simp add: parse_and_validate_def string_eval decimal_eval)

lemma run_example:
  "run_topsis decimal decimal argsort_stable argsort_stable (Frame example_table) ''1,1'' ''+,-''
   = Inr [(''Model'', [Cell ''M1'', Cell ''M2'']), (''Price'', [Cell ''3'', Cell ''4'']),
          (''Speed'', [Cell ''4'', Cell ''3'']), (''Topsis Score'', [Score 0, Score 1]),
          (''Rank'', [Rank 2, Rank 1])]"
proof -
  have "int (length example_table) - 1 = 2" by (simp add: example_table_def)
  then show ?thesis
    by (simp add: run_topsis_def read_example parse_example to_numpy_example example_run)
       (simp add: example_table_def)
qed

lemma main_example:
  "main decimal decimal argsort_stable argsort_stable example_files
     [''in.csv'', ''1,1'', ''+,-'', ''out.csv'']
   = \<lparr>printed = [''Result written to out.csv''], exit_code = 0,
      written = Some (''out.csv'',
        [(''Model'', [Cell ''M1'', Cell ''M2'']), (''Price'', [Cell ''3'', Cell ''4'']),
         (''Speed'', [Cell ''4'', Cell ''3'']), (''Topsis Score'', [Score 0, Score 1]),
         (''Rank'', [Rank 2, Rank 1])])\<rparr>"
  by (simp add: main_def example_files_def run_example)


lemma main_zero:
  "main decimal decimal argsort_stable argsort_stable example_files
     [''zero.csv'', ''1,1'', ''+,-'', ''out.csv'']
   = \<lparr>printed = [''Error: Column with all zeros detected''], exit_code = 1, written = None\<rparr>"
proof -
  have "read_and_validate_csv decimal (Frame zero_table) = Inr zero_table"
    by (simp add: table_eval decimal_eval)
  moreover have "int (length zero_table) - 1 = 2" by (simp add: zero_table_def)
  moreover have "topsis_calculation argsort_stable argsort_stable
      \<lparr>width = 2, rows = [[0, 4], [0, 3]]\<rparr> [1, 1] [''+'', ''-'']
      = Inl ''Error: Column with all zeros detected''"
    by (simp add: topsis_calculation_def norms_def error_and_exit_def upt_rec)
  ultimately show ?thesis
    by (simp add: main_def example_files_def run_topsis_def parse_example to_numpy_zero)
qed

lemma main_compute_failure:
  assumes "length args = 4"
    and "read_and_validate_csv num (files (args ! 0)) = Inr df"
    and "parse_and_validate pf (args ! 1) (args ! 2) (int (length df) - 1) = Inr (w, imp)"
    and "isl (topsis_calculation af ai (to_numpy num (tl df)) w imp)"
  shows "main num pf af ai files args
    = \<lparr>printed = [''Error: Column with all zeros detected''], exit_code = 1, written = None\<rparr>"
  using assms topsis_calculation_Inl [OF assms(4)]
  by (simp add: main_def run_topsis_def error_and_exit_def)

text \<open>
  Claim C3. \<open>topsis_calculation\<close> fails if and only if some column of the matrix has
  Euclidean norm zero, and then with the message of the all-zero column; over the reals
  a column has norm zero exactly when all its entries are zero. When it does not fail,
  every norm the weighting divides by is not zero. A failure of the computation makes
  the invocation exit with code 1, one printed line and no file written.
\<close>

theorem zero_norm_failure:
  "(isl (topsis_calculation argsort_f argsort_i data weights impacts)
      \<longleftrightarrow> (\<exists>j < width data. norms data ! j = 0))
   \<and> (isl (topsis_calculation argsort_f argsort_i data weights impacts) \<longrightarrow>
        topsis_calculation argsort_f argsort_i data weights impacts
          = error_and_exit ''Column with all zeros detected'')
   \<and> (\<forall>j < width data.
        norms data ! j = sqrt (\<Sum>r\<leftarrow>rows data. (r ! j)\<^sup>2)
        \<and> (norms data ! j = 0 \<longleftrightarrow> (\<forall>r \<in> set (rows data). r ! j = 0)))
   \<and> (\<not> isl (topsis_calculation argsort_f argsort_i data weights impacts) \<longrightarrow>
        (\<forall>i < length (rows data). \<forall>j < width data.
           norms data ! j \<noteq> 0
           \<and> weighted_matrix data weights ! i ! j
               = rows data ! i ! j / norms data ! j * weights ! j))
   \<and> (length args = 4
        \<and> read_and_validate_csv to_numeric (files (args ! 0)) = Inr df
        \<and> parse_and_validate py_float (args ! 1) (args ! 2) (int (length df) - 1)
            = Inr (weights, impacts)
        \<and> data = to_numpy to_numeric (tl df)
        \<and> (\<exists>j < width data. norms data ! j = 0) \<longrightarrow>
        main to_numeric py_float argsort_f argsort_i files args
          = \<lparr>printed = [''Error: Column with all zeros detected''], exit_code = 1,
             written = None\<rparr>)"
proof -
  have "main to_numeric py_float argsort_f argsort_i files args
          = \<lparr>printed = [''Error: Column with all zeros detected''], exit_code = 1,
             written = None\<rparr>"
    if "length args = 4" "read_and_validate_csv to_numeric (files (args ! 0)) = Inr df"
      "parse_and_validate py_float (args ! 1) (args ! 2) (int (length df) - 1)
            = Inr (weights, impacts)"
      "data = to_numpy to_numeric (tl df)" "\<exists>j < width data. norms data ! j = 0"
    using that topsis_calculation_isl [of argsort_f argsort_i data weights impacts]
    by (intro main_compute_failure [where df = df and w = weights and imp = impacts]) auto
  then show ?thesis
    using topsis_calculation_isl [of argsort_f argsort_i data weights impacts]
      topsis_calculation_Inl [of argsort_f argsort_i data weights impacts]
    by (auto simp: norms_nth norms_zero_iff [symmetric] weighted_matrix_nth)
qed

theorem zero_norm_failure_witness:
  "isl (topsis_calculation argsort_stable argsort_stable
          \<lparr>width = 2, rows = [[0, 4], [0, 3]]\<rparr> [1, 1] [''+'', ''-''])
   \<and> norms \<lparr>width = 2, rows = [[0, 4], [0, 3]]\<rparr> ! 0 = 0
   \<and> \<not> isl (topsis_calculation argsort_stable argsort_stable
          \<lparr>width = 2, rows = [[3, 4], [4, 3]]\<rparr> [1, 1] [''+'', ''-''])
   \<and> norms \<lparr>width = 2, rows = [[3, 4], [4, 3]]\<rparr> ! 1 = 5
   \<and> main decimal decimal argsort_stable argsort_stable example_files
        [''zero.csv'', ''1,1'', ''+,-'', ''out.csv'']
      = \<lparr>printed = [''Error: Column with all zeros detected''], exit_code = 1,
         written = None\<rparr>"
proof -
  have 1: "norms \<lparr>width = 2, rows = [[0, 4], [0, 3]]\<rparr> ! 0 = 0"
    by (simp add: norms_def upt_rec)
  have 2: "norms \<lparr>width = 2, rows = [[3, 4], [4, 3]]\<rparr> ! 1 = 5"
    by (simp add: norms_def upt_rec sqrt25)
  have 3: "\<exists>j < width \<lparr>width = 2, rows = [[0, 4], [0, 3]]\<rparr>.
             norms \<lparr>width = 2, rows = [[0, 4], [0, 3]]\<rparr> ! j = 0"
    using 1 by (intro exI [of _ 0]) simp
  have 4: "\<not> isl (topsis_calculation argsort_stable argsort_stable
          \<lparr>width = 2, rows = [[3, 4], [4, 3]]\<rparr> [1, 1] [''+'', ''-''])"
    by (simp add: example_run)
  show ?thesis
    using zero_norm_failure [where argsort_f = argsort_stable and argsort_i = argsort_stable
        and data = "\<lparr>width = 2, rows = [[0, 4], [0, 3]]\<rparr>" and weights = "[1, 1]"
        and impacts = "[''+'', ''-'']" and to_numeric = decimal and py_float = decimal
        and files = example_files and df = zero_table
        and args = "[''zero.csv'', ''1,1'', ''+,-'', ''out.csv'']"]
      1 2 3 4 main_zero
    by blast
qed

subsection \<open>Ideal points and weights\<close>

lemma ideal_best_nth:
  "j < c \<Longrightarrow> ideal_best c imp W ! j =
     (if imp ! j = ''+'' then col_max W j else col_min W j)"
  by (simp add: ideal_best_def)

lemma ideal_worst_nth:
  "j < c \<Longrightarrow> ideal_worst c imp W ! j =
     (if imp ! j = ''+'' then col_min W j else col_max W j)"
  by (simp add: ideal_worst_def)

lemma col_max_eq: "col_max W j = Max ((\<lambda>k. W ! k ! j) ` {..<length W})"
  by (simp add: col_max_def col_image)

lemma col_min_eq: "col_min W j = Min ((\<lambda>k. W ! k ! j) ` {..<length W})"
  by (simp add: col_min_def col_image)

text \<open>
  Claim C4. For every row \<open>i\<close> and criterion \<open>j\<close> of the matrix, the weighted entry is
  \<open>matrix[i][j] / norm_j * weights[j]\<close>, with \<open>norm_j\<close> the Euclidean norm of column \<open>j\<close>.
  When impact \<open>j\<close> is \<^verbatim>\<open>+\<close>, the ideal best of criterion \<open>j\<close> is the maximum of the weighted
  column over the rows and the ideal worst is its minimum; when impact \<open>j\<close> is \<^verbatim>\<open>-\<close> (or
  anything other than \<^verbatim>\<open>+\<close>), the two are swapped. Maximum and minimum are attained in
  the column and bound every entry of it.
\<close>

theorem weighted_and_ideal_points:
  assumes i: "i < length (rows data)" and j: "j < width data"
  shows
    "(let W = weighted_matrix data weights;
          best = ideal_best (width data) impacts W ! j;
          worst = ideal_worst (width data) impacts W ! j;
          column = (\<lambda>k. W ! k ! j) ` {..<length (rows data)}
      in W ! i ! j = rows data ! i ! j / norms data ! j * weights ! j
         \<and> norms data ! j = sqrt (\<Sum>r\<leftarrow>rows data. (r ! j)\<^sup>2)
         \<and> (impacts ! j = ''+'' \<longrightarrow> best = Max column \<and> worst = Min column)
         \<and> (impacts ! j = ''-'' \<longrightarrow> best = Min column \<and> worst = Max column)
         \<and> (impacts ! j \<noteq> ''+'' \<longrightarrow> best = Min column \<and> worst = Max column)
         \<and> Min column \<le> W ! i ! j \<and> W ! i ! j \<le> Max column
         \<and> Max column \<in> column \<and> Min column \<in> column)"
proof -
  define W where "W = weighted_matrix data weights"
  define column where "column = (\<lambda>k. W ! k ! j) ` {..<length (rows data)}"
  have lW: "length W = length (rows data)" by (simp add: W_def length_weighted_matrix)
  have fin: "finite column" and ne: "column \<noteq> {}" and mem: "W ! i ! j \<in> column"
    using i by (auto simp: column_def)
  have mx: "col_max W j = Max column" and mn: "col_min W j = Min column"
    by (simp_all add: col_max_eq col_min_eq lW column_def)
  have "Min column \<le> W ! i ! j" "W ! i ! j \<le> Max column"
    using fin mem by simp_all
  moreover have "Max column \<in> column" "Min column \<in> column"
    using fin ne by (simp_all add: Max_in Min_in)
  moreover have "W ! i ! j = rows data ! i ! j / norms data ! j * weights ! j"
    using i j by (simp add: W_def weighted_matrix_nth)
  moreover have "norms data ! j = sqrt (\<Sum>r\<leftarrow>rows data. (r ! j)\<^sup>2)"
    using j by (rule norms_nth)
  ultimately show ?thesis
    unfolding Let_def W_def [symmetric] column_def [symmetric]
    using j by (simp add: ideal_best_nth ideal_worst_nth mx mn)
qed

theorem weighted_and_ideal_points_witness:
  "(0 :: nat) < length (rows \<lparr>width = 2, rows = [[3, 4], [4, 3]]\<rparr>)
   \<and> (1 :: nat) < width \<lparr>width = 2, rows = [[3, 4], [4, 3]]\<rparr>
   \<and> weighted_matrix \<lparr>width = 2, rows = [[3, 4], [4, 3]]\<rparr> [1, 1] = [[3/5, 4/5], [4/5, 3/5]]
   \<and> norms \<lparr>width = 2, rows = [[3, 4], [4, 3]]\<rparr> ! 1 = 5
   \<and> ideal_best 2 [''+'', ''-''] [[3/5, 4/5], [4/5, 3/5]] = [4/5, 3/5]
   \<and> ideal_worst 2 [''+'', ''-''] [[3/5, 4/5], [4/5, 3/5]] = [3/5, 4/5]"
  using weighted_and_ideal_points [of 0 "\<lparr>width = 2, rows = [[3, 4], [4, 3]]\<rparr>" 1
      "[1, 1]" "[''+'', ''-'']"]
  by (simp add: weighted_matrix_def norms_def sqrt25 upt_rec ideal_best_def ideal_worst_def
      col_max_def col_min_def)



subsection \<open>The table, the invocation\<close>

lemma all_numeric_iff:
  "all_numeric num df \<longleftrightarrow> (\<forall>(name, column) \<in> set (tl df). \<forall>c \<in> set column. num c \<noteq> None)"
  by (auto simp: all_numeric_def list_all_iff)

lemma to_numpy_shape:
  "width (to_numpy num criteria) = length criteria"
  "length (rows (to_numpy num criteria)) = nrows criteria"
  by (simp_all add: to_numpy_def)

lemma to_numpy_nth:
  "i < nrows criteria \<Longrightarrow> j < length criteria \<Longrightarrow>
   rows (to_numpy num criteria) ! i ! j = the (num (snd (criteria ! j) ! i))"
  by (simp add: to_numpy_def case_prod_beta)

lemma to_numpy_row_length:
  "i < nrows criteria \<Longrightarrow> length (rows (to_numpy num criteria) ! i) = length criteria"
  by (simp add: to_numpy_def)

text \<open>
  Claim C6. On a table that was read, \<open>read_and_validate_csv\<close> fails if the table has fewer
  than three columns; otherwise it fails if some cell of some column other than the first
  is not coerced to a number (one check over all cells of all criteria columns);
  otherwise it returns the table unchanged. The criteria matrix built from the columns
  after the first has one column per criteria column and one row per table row, and on
  success its entry \<open>(i, j)\<close> is the number that cell \<open>i\<close> of column \<open>j + 1\<close> is coerced to:
  the identifier column is dropped and the row order kept.
\<close>

theorem read_and_validate_csv_cases:
  "read_and_validate_csv to_numeric (Frame df) =
     (if length df < 3 then error_and_exit ''Input file must have at least 3 columns''
      else if \<exists>(name, column) \<in> set (tl df). \<exists>c \<in> set column. to_numeric c = None
      then error_and_exit ''Columns 2 onwards must contain only numeric values''
      else Inr df)
   \<and> width (to_numpy to_numeric (tl df)) = length df - 1
   \<and> length (rows (to_numpy to_numeric (tl df))) = nrows (tl df)
   \<and> (\<forall>i < nrows (tl df). \<forall>j < length df - 1.
         length (rows (to_numpy to_numeric (tl df)) ! i) = length df - 1
         \<and> (read_and_validate_csv to_numeric (Frame df) = Inr df
              \<and> i < length (snd (df ! Suc j)) \<longrightarrow>
            to_numeric (snd (df ! Suc j) ! i)
              = Some (rows (to_numpy to_numeric (tl df)) ! i ! j)))"
proof -
  have 1: "read_and_validate_csv to_numeric (Frame df) =
     (if length df < 3 then error_and_exit ''Input file must have at least 3 columns''
      else if \<exists>(name, column) \<in> set (tl df). \<exists>c \<in> set column. to_numeric c = None
      then error_and_exit ''Columns 2 onwards must contain only numeric values''
      else Inr df)"
  proof -
    have "all_numeric to_numeric df
        \<longleftrightarrow> \<not> (\<exists>(name, column) \<in> set (tl df). \<exists>c \<in> set column. to_numeric c = None)"
      unfolding all_numeric_iff by fastforce
    then show ?thesis by (simp add: read_and_validate_csv_def)
  qed
  have 2: "to_numeric (snd (df ! Suc j) ! i) = Some (rows (to_numpy to_numeric (tl df)) ! i ! j)"
    if i: "i < nrows (tl df)" and j: "j < length df - 1"
      and ok: "read_and_validate_csv to_numeric (Frame df) = Inr df"
      and c: "i < length (snd (df ! Suc j))" for i j
  proof -
    have nth: "tl df ! j = df ! Suc j" using j by (simp add: nth_tl)
    have "df ! Suc j \<in> set (tl df)" using j nth by (metis length_tl nth_mem)
    moreover have "snd (df ! Suc j) ! i \<in> set (snd (df ! Suc j))" using c by simp
    moreover have "all_numeric to_numeric df"
      using ok by (auto simp: read_and_validate_csv_def error_and_exit_def split: if_splits)
    ultimately have "to_numeric (snd (df ! Suc j) ! i) \<noteq> None"
      by (auto simp: all_numeric_iff)
    moreover have "rows (to_numpy to_numeric (tl df)) ! i ! j
        = the (to_numeric (snd (df ! Suc j) ! i))"
      using i j by (simp add: to_numpy_nth nth)
    ultimately show ?thesis by auto
  qed
  show ?thesis
    using 1 2 by (simp add: to_numpy_shape to_numpy_row_length)
qed

theorem read_and_validate_csv_cases_witness:
  "read_and_validate_csv decimal (Frame example_table) = Inr example_table
   \<and> to_numpy decimal (tl example_table) = \<lparr>width = 2, rows = [[3, 4], [4, 3]]\<rparr>
   \<and> decimal (snd (example_table ! Suc 1) ! 0) = Some 4
   \<and> isl (read_and_validate_csv decimal
            (Frame [(''Model'', [''M1'']), (''Price'', [''3''])]))
   \<and> isl (read_and_validate_csv decimal
            (Frame [(''Model'', [''M1'']), (''Price'', [''3'']), (''Speed'', [''fast''])]))"
proof -
  have 1: "length example_table - 1 = 2" "nrows (tl example_table) = 2"
      "length (snd (example_table ! Suc 1)) = 2"
    by (simp_all add: example_table_def nrows_def)
  show ?thesis
    using read_and_validate_csv_cases [of decimal example_table]
      read_and_validate_csv_cases [of decimal "[(''Model'', [''M1'']), (''Price'', [''3''])]"]
      read_and_validate_csv_cases [of decimal
        "[(''Model'', [''M1'']), (''Price'', [''3'']), (''Speed'', [''fast''])]"]
      read_example to_numpy_example 1
    by (simp add: error_and_exit_def decimal_eval)
qed


lemma read_and_validate_csv_Inl:
  "read_and_validate_csv num r = Inl line \<Longrightarrow> \<exists>msg. line = ''Error: '' @ msg"
  by (auto simp: read_and_validate_csv_def error_and_exit_def split: read_csv.splits if_splits)

lemma read_and_validate_csv_Inr:
  "read_and_validate_csv num r = Inr df \<Longrightarrow> r = Frame df"
  by (auto simp: read_and_validate_csv_def error_and_exit_def split: read_csv.splits if_splits)

lemma parse_and_validate_Inl:
  "parse_and_validate pf w i n = Inl line \<Longrightarrow> \<exists>msg. line = ''Error: '' @ msg"
  by (auto simp: parse_and_validate_def error_and_exit_def Let_def
      split: option.splits if_splits)

lemma topsis_calculation_Inl_line:
  "topsis_calculation af ai data w imp = Inl line \<Longrightarrow> \<exists>msg. line = ''Error: '' @ msg"
  by (auto simp: topsis_calculation_def error_and_exit_def Let_def split: if_splits)

lemma run_topsis_Inl:
  "run_topsis num pf af ai input wa ia = Inl line \<Longrightarrow> \<exists>msg. line = ''Error: '' @ msg"
  by (auto simp: run_topsis_def split: sum.splits prod.splits
      dest: read_and_validate_csv_Inl parse_and_validate_Inl topsis_calculation_Inl_line)

lemma run_topsis_Inr:
  assumes "run_topsis num pf af ai input wa ia = Inr table"
  shows "\<exists>df weights impacts scores ranks.
      read_and_validate_csv num input = Inr df
      \<and> parse_and_validate pf wa ia (int (length df) - 1) = Inr (weights, impacts)
      \<and> topsis_calculation af ai (to_numpy num (tl df)) weights impacts = Inr (scores, ranks)
      \<and> table = setitem (setitem (map (\<lambda>(name, column). (name, map Cell column)) df)
                    ''Topsis Score'' (map Score scores)) ''Rank'' (map Rank ranks)"
  using assms by (auto simp: run_topsis_def split: sum.splits prod.splits)

lemma run_topsis_isl:
  "isl (run_topsis num pf af ai input wa ia) \<longleftrightarrow>
     isl (read_and_validate_csv num input)
     \<or> (\<exists>df. read_and_validate_csv num input = Inr df
          \<and> (isl (parse_and_validate pf wa ia (int (length df) - 1))
              \<or> (\<exists>weights impacts.
                    parse_and_validate pf wa ia (int (length df) - 1) = Inr (weights, impacts)
                    \<and> isl (topsis_calculation af ai (to_numpy num (tl df)) weights impacts))))"
  by (auto simp: run_topsis_def split: sum.splits prod.splits)

lemma setitem_absent: "name \<notin> set (map fst df) \<Longrightarrow> setitem df name v = df @ [(name, v)]"
  by (induction df) auto

lemma setitem_names:
  "map fst (setitem df name v)
     = map fst df @ (if name \<in> set (map fst df) then [] else [name])"
  by (induction df) (auto simp: rev_image_eqI)

lemma rank_of_length:
  assumes "argsort_spec af" "argsort_spec ai"
  shows "length (rank_of af ai scores) = length scores"
proof -
  have "is_argsort (map uminus scores) (af (map uminus scores))"
    using assms(1) by (simp add: argsort_spec_def)
  moreover have "is_argsort (af (map uminus scores)) (ai (af (map uminus scores)))"
    using assms(2) by (simp add: argsort_spec_def)
  ultimately have "length (ai (af (map uminus scores))) = length (map uminus scores)"
    by (simp add: is_argsort_length)
  then show ?thesis by (simp add: rank_of_def)
qed

text \<open>
  Claim C7, as amended. With other than four arguments, and whenever reading, parameter
  validation or the computation fails, the invocation prints exactly one line, which
  starts with \<^verbatim>\<open>Error: \<close>, exits with code 1 and writes no file. Otherwise it exits
  with code 0 and writes the input table after the two assignments
  \<^verbatim>\<open>df["Topsis Score"] = scores\<close> and \<^verbatim>\<open>df["Rank"] = ranks\<close>, one score and one rank per
  input row: a column of that name that the input does not have is appended, one that
  it has is overwritten where it stands. When the input has neither name, the output is
  the input table plus exactly the two appended columns.
\<close>

theorem main_outcome:
  "(let out = main to_numeric py_float argsort_f argsort_i files args;
        result = run_topsis to_numeric py_float argsort_f argsort_i
                   (files (args ! 0)) (args ! 1) (args ! 2)
    in (length args \<noteq> 4 \<longrightarrow>
          out = \<lparr>printed =
                   [''Error: Usage: <InputDataFile> <Weights> <Impacts> <OutputResultFile>''],
                 exit_code = 1, written = None\<rparr>)
     \<and> (length args = 4 \<longrightarrow>
          (isl result \<longleftrightarrow>
             isl (read_and_validate_csv to_numeric (files (args ! 0)))
             \<or> (\<exists>df. read_and_validate_csv to_numeric (files (args ! 0)) = Inr df
                  \<and> (isl (parse_and_validate py_float (args ! 1) (args ! 2)
                            (int (length df) - 1))
                      \<or> (\<exists>weights impacts.
                            parse_and_validate py_float (args ! 1) (args ! 2)
                              (int (length df) - 1) = Inr (weights, impacts)
                            \<and> isl (topsis_calculation argsort_f argsort_i
                                     (to_numpy to_numeric (tl df)) weights impacts)))))
          \<and> (\<forall>line. result = Inl line \<longrightarrow>
                out = \<lparr>printed = [line], exit_code = 1, written = None\<rparr>
                \<and> (\<exists>msg. line = ''Error: '' @ msg))
          \<and> (\<forall>table. result = Inr table \<longrightarrow>
                out = \<lparr>printed = [''Result written to '' @ args ! 3], exit_code = 0,
                       written = Some (args ! 3, table)\<rparr>
                \<and> (\<exists>df weights impacts scores ranks.
                      files (args ! 0) = Frame df
                      \<and> topsis_calculation argsort_f argsort_i
                          (to_numpy to_numeric (tl df)) weights impacts = Inr (scores, ranks)
                      \<and> length scores = nrows (tl df)
                      \<and> (argsort_spec argsort_f \<and> argsort_spec argsort_i \<longrightarrow>
                           length ranks = nrows (tl df))
                      \<and> table = setitem
                                  (setitem (map (\<lambda>(name, column). (name, map Cell column)) df)
                                     ''Topsis Score'' (map Score scores))
                                  ''Rank'' (map Rank ranks)
                      \<and> map fst table
                          = map fst df
                            @ (if ''Topsis Score'' \<in> set (map fst df) then []
                               else [''Topsis Score''])
                            @ (if ''Rank'' \<in> set (map fst df) then [] else [''Rank''])
                      \<and> (''Topsis Score'' \<notin> set (map fst df) \<and> ''Rank'' \<notin> set (map fst df)
                           \<longrightarrow> table = map (\<lambda>(name, column). (name, map Cell column)) df
                                    @ [(''Topsis Score'', map Score scores),
                                       (''Rank'', map Rank ranks)])))))"
proof -
  define result where "result = run_topsis to_numeric py_float argsort_f argsort_i
                   (files (args ! 0)) (args ! 1) (args ! 2)"
  have a: "main to_numeric py_float argsort_f argsort_i files args
      = \<lparr>printed = [''Error: Usage: <InputDataFile> <Weights> <Impacts> <OutputResultFile>''],
         exit_code = 1, written = None\<rparr>" if "length args \<noteq> 4"
    using that by (simp add: main_def error_and_exit_def)
  have b: "main to_numeric py_float argsort_f argsort_i files args
      = \<lparr>printed = [line], exit_code = 1, written = None\<rparr> \<and> (\<exists>msg. line = ''Error: '' @ msg)"
    if "length args = 4" "result = Inl line" for line
    using that run_topsis_Inl [of to_numeric py_float argsort_f argsort_i
        "files (args ! 0)" "args ! 1" "args ! 2" line]
    by (simp add: main_def result_def)
  have c: "main to_numeric py_float argsort_f argsort_i files args
        = \<lparr>printed = [''Result written to '' @ args ! 3], exit_code = 0,
           written = Some (args ! 3, table)\<rparr>
      \<and> (\<exists>df weights impacts scores ranks.
            files (args ! 0) = Frame df
            \<and> topsis_calculation argsort_f argsort_i
                (to_numpy to_numeric (tl df)) weights impacts = Inr (scores, ranks)
            \<and> length scores = nrows (tl df)
            \<and> (argsort_spec argsort_f \<and> argsort_spec argsort_i \<longrightarrow>
                 length ranks = nrows (tl df))
            \<and> table = setitem
                        (setitem (map (\<lambda>(name, column). (name, map Cell column)) df)
                           ''Topsis Score'' (map Score scores))
                        ''Rank'' (map Rank ranks)
            \<and> map fst table
                = map fst df
                  @ (if ''Topsis Score'' \<in> set (map fst df) then []
                     else [''Topsis Score''])
                  @ (if ''Rank'' \<in> set (map fst df) then [] else [''Rank''])
            \<and> (''Topsis Score'' \<notin> set (map fst df) \<and> ''Rank'' \<notin> set (map fst df)
                 \<longrightarrow> table = map (\<lambda>(name, column). (name, map Cell column)) df
                          @ [(''Topsis Score'', map Score scores),
                             (''Rank'', map Rank ranks)]))"
    if len: "length args = 4" and res: "result = Inr table" for table
  proof -
    obtain df weights impacts scores ranks where
      rd: "read_and_validate_csv to_numeric (files (args ! 0)) = Inr df"
      and run: "topsis_calculation argsort_f argsort_i (to_numpy to_numeric (tl df))
                  weights impacts = Inr (scores, ranks)"
      and tab: "table = setitem (setitem (map (\<lambda>(name, column). (name, map Cell column)) df)
                    ''Topsis Score'' (map Score scores)) ''Rank'' (map Rank ranks)"
      using run_topsis_Inr [OF res [unfolded result_def]] by blast
    have names: "map fst (map (\<lambda>(name, column). (name, map Cell column)) df) = map fst df"
      by (simp add: case_prod_beta)
    have 1: "files (args ! 0) = Frame df"
      using rd by (rule read_and_validate_csv_Inr)
    have 2: "length scores = nrows (tl df)"
      using topsis_scores_length [OF run] by (simp add: to_numpy_shape)
    have 3: "length ranks = nrows (tl df)"
      if "argsort_spec argsort_f \<and> argsort_spec argsort_i"
      using that rank_of_length [of argsort_f argsort_i scores] 2
      by (simp add: topsis_calculation_Inr(3) [OF run])
    have 4: "map fst table
                = map fst df
                  @ (if ''Topsis Score'' \<in> set (map fst df) then []
                     else [''Topsis Score''])
                  @ (if ''Rank'' \<in> set (map fst df) then [] else [''Rank''])"
      unfolding tab setitem_names names by simp
    have 5: "table = map (\<lambda>(name, column). (name, map Cell column)) df
                          @ [(''Topsis Score'', map Score scores),
                             (''Rank'', map Rank ranks)]"
      if "''Topsis Score'' \<notin> set (map fst df) \<and> ''Rank'' \<notin> set (map fst df)"
    proof -
      have "''Topsis Score'' \<notin> set (map fst (map (\<lambda>(name, column). (name, map Cell column)) df))"
        unfolding names using that by blast
      then have 1: "setitem (map (\<lambda>(name, column). (name, map Cell column)) df)
              ''Topsis Score'' (map Score scores)
            = map (\<lambda>(name, column). (name, map Cell column)) df
              @ [(''Topsis Score'', map Score scores)]"
        by (rule setitem_absent)
      have "''Rank'' \<notin> set (map fst
          (map (\<lambda>(name, column). (name, map Cell column)) df
              @ [(''Topsis Score'', map Score scores)]))"
        unfolding map_append names using that by simp
      then have "setitem (map (\<lambda>(name, column). (name, map Cell column)) df
              @ [(''Topsis Score'', map Score scores)]) ''Rank'' (map Rank ranks)
            = (map (\<lambda>(name, column). (name, map Cell column)) df
              @ [(''Topsis Score'', map Score scores)]) @ [(''Rank'', map Rank ranks)]"
        by (rule setitem_absent)
      then show ?thesis
        unfolding tab 1 by simp
    qed
    have "main to_numeric py_float argsort_f argsort_i files args
        = \<lparr>printed = [''Result written to '' @ args ! 3], exit_code = 0,
           written = Some (args ! 3, table)\<rparr>"
      using len res by (simp add: main_def result_def)
    then show ?thesis using 1 run 2 3 tab 4 5 by blast
  qed
  have d: "isl result \<longleftrightarrow>
             isl (read_and_validate_csv to_numeric (files (args ! 0)))
             \<or> (\<exists>df. read_and_validate_csv to_numeric (files (args ! 0)) = Inr df
                  \<and> (isl (parse_and_validate py_float (args ! 1) (args ! 2)
                            (int (length df) - 1))
                      \<or> (\<exists>weights impacts.
                            parse_and_validate py_float (args ! 1) (args ! 2)
                              (int (length df) - 1) = Inr (weights, impacts)
                            \<and> isl (topsis_calculation argsort_f argsort_i
                                     (to_numpy to_numeric (tl df)) weights impacts))))"
    unfolding result_def by (rule run_topsis_isl)
  show ?thesis
    unfolding Let_def result_def [symmetric] using a b c d by blast
qed

theorem main_outcome_witness:
  "main decimal decimal argsort_stable argsort_stable example_files
     [''in.csv'', ''1,1'', ''+,-'', ''out.csv'']
   = \<lparr>printed = [''Result written to out.csv''], exit_code = 0,
      written = Some (''out.csv'',
        [(''Model'', [Cell ''M1'', Cell ''M2'']), (''Price'', [Cell ''3'', Cell ''4'']),
         (''Speed'', [Cell ''4'', Cell ''3'']), (''Topsis Score'', [Score 0, Score 1]),
         (''Rank'', [Rank 2, Rank 1])])\<rparr>
   \<and> main decimal decimal argsort_stable argsort_stable example_files
       [''zero.csv'', ''1,1'', ''+,-'', ''out.csv'']
     = \<lparr>printed = [''Error: Column with all zeros detected''], exit_code = 1, written = None\<rparr>
   \<and> main decimal decimal argsort_stable argsort_stable example_files
       [''in.csv'', ''1,1'', ''+,-'']
     = \<lparr>printed = [''Error: Usage: <InputDataFile> <Weights> <Impacts> <OutputResultFile>''],
        exit_code = 1, written = None\<rparr>"
  using main_outcome [where to_numeric = decimal and py_float = decimal
      and argsort_f = argsort_stable and argsort_i = argsort_stable and files = example_files
      and args = "[''in.csv'', ''1,1'', ''+,-'']"]
    main_example main_zero
  by (simp add: Let_def)

text \<open>
  The claim as stated fails on a table whose first criterion is named \<^verbatim>\<open>Rank\<close>: the
  run succeeds, the written table has four columns, not five, and the input's \<^verbatim>\<open>Rank\<close>
  column holds the computed ranks instead of the input values.
\<close>

theorem appended_columns_counterexample:
  "main decimal decimal argsort_stable argsort_stable example_files
     [''rank.csv'', ''1,1'', ''+,-'', ''out.csv'']
   = \<lparr>printed = [''Result written to out.csv''], exit_code = 0,
      written = Some (''out.csv'',
        [(''Model'', [Cell ''M1'', Cell ''M2'']), (''Rank'', [Rank 2, Rank 1]),
         (''Speed'', [Cell ''4'', Cell ''3'']), (''Topsis Score'', [Score 0, Score 1])])\<rparr>"
proof -
  have "read_and_validate_csv decimal (Frame rank_table) = Inr rank_table"
    by (simp add: table_eval decimal_eval)
  moreover have "int (length rank_table) - 1 = 2" by (simp add: rank_table_def)
  ultimately have "run_topsis decimal decimal argsort_stable argsort_stable (Frame rank_table)
      ''1,1'' ''+,-''
    = Inr [(''Model'', [Cell ''M1'', Cell ''M2'']), (''Rank'', [Rank 2, Rank 1]),
         (''Speed'', [Cell ''4'', Cell ''3'']), (''Topsis Score'', [Score 0, Score 1])]"
    by (simp add: run_topsis_def parse_example to_numpy_rank example_run)
       (simp add: rank_table_def)
  then show ?thesis
    by (simp add: main_def example_files_def)
qed

end
